theory Spec2Isabelle
  imports Complex_Main
begin

section \<open>The random-forest wrapper of algorithm.py\<close>

text \<open>
  The class \<open>Algorithm\<close> of \<open>custom-algorithms/random-forest/algorithm.py\<close> is a
  thin layer over two objects of an external library: a \<open>StandardScaler\<close> and a
  \<open>RandomForestClassifier\<close>. The library is not part of the repository, so it is a
  parameter of the model: a record of the operations the wrapper calls. Library objects
  are mutable in Python, hence every library call takes the state of the object it is
  invoked on and returns the new state next to its value; an exception of the library is
  the \<open>Inl\<close> of the value.

  A feature matrix is the list of its rows (all of one length), a label vector a list;
  \<open>np.array\<close> is the identity on them.
\<close>

subsection \<open>Values of params.json\<close>

datatype pyval = PyNone | PyInt int | PyStr string

type_synonym params = "string \<rightharpoonup> pyval"

definition dict_get :: "params \<Rightarrow> string \<Rightarrow> pyval \<Rightarrow> pyval" where
  \<comment> \<open>\<open>params.get(key, default)\<close>: a key that is present wins, whatever its value.\<close>
  "dict_get ps key dflt = (case ps key of None \<Rightarrow> dflt | Some v \<Rightarrow> v)"

subsection \<open>The library interface\<close>

record ('x, 'l, 'p, 'sc, 'm, 'e) library =
  StandardScaler :: 'sc
  RandomForestClassifier :: "pyval \<Rightarrow> pyval \<Rightarrow> pyval \<Rightarrow> pyval \<Rightarrow> int \<Rightarrow> 'e + 'm"
  fit_transform :: "'sc \<Rightarrow> 'x list list \<Rightarrow> ('e + 'x list list) \<times> 'sc"
  transform :: "'sc \<Rightarrow> 'x list list \<Rightarrow> ('e + 'x list list) \<times> 'sc"
  model_fit :: "'m \<Rightarrow> 'x list list \<Rightarrow> 'l list \<Rightarrow> ('e + unit) \<times> 'm"
  score :: "'m \<Rightarrow> 'x list list \<Rightarrow> 'l list \<Rightarrow> ('e + 'p) \<times> 'm"
  model_predict :: "'m \<Rightarrow> 'x list list \<Rightarrow> ('e + 'l list) \<times> 'm"
  model_predict_proba :: "'m \<Rightarrow> 'x list list \<Rightarrow> ('e + 'p list list) \<times> 'm"
  feature_importances :: "'m \<Rightarrow> 'p list option"
  argsort :: "'p list \<Rightarrow> nat list"

text \<open>
  \<open>feature_importances\<close> is the attribute \<open>feature_importances_\<close>: \<open>None\<close> when
  \<open>hasattr\<close> is false. \<open>argsort\<close> is \<open>np.argsort\<close> with its default sorting kind,
  whose order among equal keys the library does not fix.
\<close>

subsection \<open>numpy helpers whose result is fixed by their input\<close>

definition np_shape :: "'x list list \<Rightarrow> nat list" where
  \<comment> \<open>\<open>np.array(X).shape\<close>; the empty list converts to a one-dimensional array.\<close>
  "np_shape X = (case X of [] \<Rightarrow> [0] | r # _ \<Rightarrow> [length X, length r])"

definition np_unique :: "('l::linorder) list \<Rightarrow> 'l list" where
  "np_unique ys = sort (remdups ys)"

definition unique_counts :: "('l::linorder) list \<Rightarrow> ('l \<times> nat) list" where
  \<comment> \<open>\<open>dict(zip(*np.unique(ys, return_counts=True)))\<close>, in key order.\<close>
  "unique_counts ys = map (\<lambda>l. (l, count_list ys l)) (np_unique ys)"

definition slice_last :: "nat \<Rightarrow> 'a list \<Rightarrow> 'a list" where
  \<comment> \<open>\<open>xs[-n:]\<close>: the last \<open>n\<close> elements, all of them when there are fewer.\<close>
  "slice_last n xs = drop (length xs - n) xs"

subsection \<open>The wrapper object, its errors and its output\<close>

record ('sc, 'm) algorithm =
  n_estimators :: pyval
  max_depth :: pyval
  min_samples_split :: pyval
  random_state :: pyval
  scaler :: 'sc
  model :: 'm

datatype 'e pyerror = LibraryError 'e | IndexError

datatype ('l, 'p) log_line =
    Initialized
  | ParamLine string pyval
  | StartingTraining
  | TrainingDataShape "nat list" "nat list"
  | TargetClasses "'l list"
  | StandardizingFeatures
  | TrainingTrees pyval
  | TrainingCompleted
  | TrainingAccuracy 'p
  | NumberOfFeatures nat
  | NumberOfSamples nat
  | TopFeatureImportances
  | FeatureImportance nat 'p
  | MakingPredictions
  | PredictionDataShape "nat list"
  | GeneratedPredictions nat
  | PredictionDistribution "('l \<times> nat) list"

text \<open>
  What a method call leaves behind: its value or the exception that ended it, the lines
  it printed before that, and the wrapper as the call left it (an exception does not
  undo what the library objects had already learned).
\<close>

record ('r, 'l, 'p, 'sc, 'm, 'e) call =
  result :: "'e pyerror + 'r"
  printed :: "('l, 'p) log_line list"
  wrapper :: "('sc, 'm) algorithm"

subsection \<open>\<open>__init__\<close>\<close>

definition init ::
  "('x, 'l, 'p, 'sc, 'm, 'e) library \<Rightarrow> params \<Rightarrow>
     ('e pyerror + ('sc, 'm) algorithm) \<times> ('l, 'p) log_line list" where
  "init lib ps =
     (let ne = dict_get ps ''n_estimators'' (PyInt 100);
          md = dict_get ps ''max_depth'' PyNone;
          mss = dict_get ps ''min_samples_split'' (PyInt 2);
          rs = dict_get ps ''random_state'' (PyInt 42)
      in case RandomForestClassifier lib ne md mss rs (- 1) of
           Inl e \<Rightarrow> (Inl (LibraryError e), [])
         | Inr m \<Rightarrow>
             (Inr \<lparr>n_estimators = ne, max_depth = md, min_samples_split = mss,
                   random_state = rs, scaler = StandardScaler lib, model = m\<rparr>,
              [Initialized, ParamLine ''n_estimators'' ne, ParamLine ''max_depth'' md,
               ParamLine ''min_samples_split'' mss, ParamLine ''random_state'' rs]))"

subsection \<open>\<open>fit\<close>\<close>

fun print_importances :: "'p list \<Rightarrow> nat list \<Rightarrow> ('l, 'p) log_line list \<times> bool" where
  \<comment> \<open>The loop of lines 84-85; \<open>False\<close> when \<open>importances[idx]\<close> is out of range.\<close>
  "print_importances importances [] = ([], True)"
| "print_importances importances (idx # rest) =
     (if idx < length importances
      then (let (ls, ok) = print_importances importances rest
            in (FeatureImportance idx (importances ! idx) # ls, ok))
      else ([], False))"

definition fit ::
  "('x, 'l::linorder, 'p, 'sc, 'm, 'e) library \<Rightarrow> ('sc, 'm) algorithm \<Rightarrow>
     'x list list \<Rightarrow> 'l list \<Rightarrow> (unit, 'l, 'p, 'sc, 'm, 'e) call" where
  "fit lib self X y =
     (let out1 = [StartingTraining, TrainingDataShape (np_shape X) [length y],
                  TargetClasses (np_unique y), StandardizingFeatures];
          (r1, sc1) = fit_transform lib (scaler self) X;
          self1 = self\<lparr>scaler := sc1\<rparr>
      in case r1 of
           Inl e \<Rightarrow> \<lparr>result = Inl (LibraryError e), printed = out1, wrapper = self1\<rparr>
         | Inr X_scaled \<Rightarrow>
     (let out2 = out1 @ [TrainingTrees (n_estimators self1)];
          (r2, m2) = model_fit lib (model self1) X_scaled y;
          self2 = self1\<lparr>model := m2\<rparr>
      in case r2 of
           Inl e \<Rightarrow> \<lparr>result = Inl (LibraryError e), printed = out2, wrapper = self2\<rparr>
         | Inr _ \<Rightarrow>
     (let (r3, m3) = score lib (model self2) X_scaled y;
          self3 = self2\<lparr>model := m3\<rparr>
      in case r3 of
           Inl e \<Rightarrow> \<lparr>result = Inl (LibraryError e), printed = out2, wrapper = self3\<rparr>
         | Inr train_accuracy \<Rightarrow>
     (let out3 = out2 @ [TrainingCompleted, TrainingAccuracy train_accuracy]
      in case np_shape X of
           [n0, n1] \<Rightarrow>
             (let out4 = out3 @ [NumberOfFeatures n1, NumberOfSamples n0]
              in case feature_importances lib (model self3) of
                   None \<Rightarrow> \<lparr>result = Inr (), printed = out4, wrapper = self3\<rparr>
                 | Some importances \<Rightarrow>
                     (let top_indices = rev (slice_last 5 (argsort lib importances));
                          (ls, ok) = print_importances importances top_indices
                      in \<lparr>result = (if ok then Inr () else Inl IndexError),
                          printed = out4 @ [TopFeatureImportances] @ ls,
                          wrapper = self3\<rparr>))
         | _ \<Rightarrow> \<lparr>result = Inl IndexError, printed = out3, wrapper = self3\<rparr>))))"

subsection \<open>\<open>predict\<close> and \<open>predict_proba\<close>\<close>

definition predict ::
  "('x, 'l::linorder, 'p, 'sc, 'm, 'e) library \<Rightarrow> ('sc, 'm) algorithm \<Rightarrow>
     'x list list \<Rightarrow> ('l list, 'l, 'p, 'sc, 'm, 'e) call" where
  "predict lib self X =
     (let out1 = [MakingPredictions, PredictionDataShape (np_shape X)];
          (r1, sc1) = transform lib (scaler self) X;
          self1 = self\<lparr>scaler := sc1\<rparr>
      in case r1 of
           Inl e \<Rightarrow> \<lparr>result = Inl (LibraryError e), printed = out1, wrapper = self1\<rparr>
         | Inr X_scaled \<Rightarrow>
     (let (r2, m2) = model_predict lib (model self1) X_scaled;
          self2 = self1\<lparr>model := m2\<rparr>
      in case r2 of
           Inl e \<Rightarrow> \<lparr>result = Inl (LibraryError e), printed = out1, wrapper = self2\<rparr>
         | Inr predictions \<Rightarrow>
             \<lparr>result = Inr predictions,
              printed = out1 @ [GeneratedPredictions (length predictions),
                                PredictionDistribution (unique_counts predictions)],
              wrapper = self2\<rparr>))"

definition predict_proba ::
  "('x, 'l, 'p, 'sc, 'm, 'e) library \<Rightarrow> ('sc, 'm) algorithm \<Rightarrow>
     'x list list \<Rightarrow> ('p list list, 'l, 'p, 'sc, 'm, 'e) call" where
  "predict_proba lib self X =
     (let (r1, sc1) = transform lib (scaler self) X;
          self1 = self\<lparr>scaler := sc1\<rparr>
      in case r1 of
           Inl e \<Rightarrow> \<lparr>result = Inl (LibraryError e), printed = [], wrapper = self1\<rparr>
         | Inr X_scaled \<Rightarrow>
     (let (r2, m2) = model_predict_proba lib (model self1) X_scaled;
          self2 = self1\<lparr>model := m2\<rparr>
      in case r2 of
           Inl e \<Rightarrow> \<lparr>result = Inl (LibraryError e), printed = [], wrapper = self2\<rparr>
         | Inr probabilities \<Rightarrow>
             \<lparr>result = Inr probabilities, printed = [], wrapper = self2\<rparr>))"

subsection \<open>What the wrapper relies on in the library\<close>

text \<open>
  The properties below are the library's, not the wrapper's; the theorems name the ones
  they need. \<open>read_only\<close>: transforming and predicting do not change the object they are
  called on. \<open>row_wise\<close>: a successful transform or prediction treats each row on its
  own. \<open>rejects_unfitted\<close>: a scaler that has learned nothing refuses to transform.
  \<open>sorts_indices\<close>: \<open>argsort\<close> returns the indices of its argument, each once, by
  non-decreasing value.
\<close>

definition read_only :: "('x, 'l, 'p, 'sc, 'm, 'e) library \<Rightarrow> bool" where
  "read_only lib \<longleftrightarrow>
     (\<forall>sc X. snd (transform lib sc X) = sc) \<and>
     (\<forall>m X. snd (model_predict lib m X) = m) \<and>
     (\<forall>m X. snd (model_predict_proba lib m X) = m)"

definition row_wise ::
  "('x, 'l, 'p, 'sc, 'm, 'e) library \<Rightarrow> ('sc \<Rightarrow> 'x list \<Rightarrow> 'x list) \<Rightarrow>
     ('m \<Rightarrow> 'x list \<Rightarrow> 'l) \<Rightarrow> bool" where
  "row_wise lib t p \<longleftrightarrow>
     (\<forall>sc X X'. fst (transform lib sc X) = Inr X' \<longrightarrow> X' = map (t sc) X) \<and>
     (\<forall>m X ls. fst (model_predict lib m X) = Inr ls \<longrightarrow> ls = map (p m) X)"

definition rejects_unfitted :: "('x, 'l, 'p, 'sc, 'm, 'e) library \<Rightarrow> bool" where
  "rejects_unfitted lib \<longleftrightarrow> (\<forall>X. isl (fst (transform lib (StandardScaler lib) X)))"

definition sorts_indices :: "('x, 'l, 'p::linorder, 'sc, 'm, 'e) library \<Rightarrow> bool" where
  "sorts_indices lib \<longleftrightarrow>
     (\<forall>xs. distinct (argsort lib xs) \<and> set (argsort lib xs) = {0..<length xs} \<and>
           sorted (map (\<lambda>i. xs ! i) (argsort lib xs)))"

text \<open>
  A feature matrix with \<open>d\<close> columns: at least one row, every row of length \<open>d\<close>.
\<close>

definition has_columns :: "nat \<Rightarrow> 'x list list \<Rightarrow> bool" where
  "has_columns d X \<longleftrightarrow> X \<noteq> [] \<and> list_all (\<lambda>r. length r = d) X"

text \<open>
  \<open>tracks_columns\<close>: the library's estimators remember the column count they were
  fitted on (\<open>sw\<close> reads it off a scaler, \<open>mw\<close> off a classifier, \<open>None\<close> before any
  fit) and accept input of that column count afterwards. A new scaler or classifier is
  unfitted; a successful fit on \<open>d\<close> columns leaves the estimator fitted for \<open>d\<close>; the
  scaler keeps the shape of what it transforms; scoring does not change what a
  classifier was fitted for; an estimator fitted for \<open>d\<close> columns transforms, predicts
  and estimates probabilities for every matrix with \<open>d\<close> columns.
\<close>

definition tracks_columns ::
  "('x, 'l, 'p, 'sc, 'm, 'e) library \<Rightarrow> ('sc \<Rightarrow> nat option) \<Rightarrow> ('m \<Rightarrow> nat option) \<Rightarrow> bool" where
  "tracks_columns lib sw mw \<longleftrightarrow>
     sw (StandardScaler lib) = None \<and>
     (\<forall>ne md mss rs nj m. RandomForestClassifier lib ne md mss rs nj = Inr m \<longrightarrow> mw m = None) \<and>
     (\<forall>sc X Xs sc' d. fit_transform lib sc X = (Inr Xs, sc') \<and> has_columns d X \<longrightarrow>
        sw sc' = Some d \<and> has_columns d Xs) \<and>
     (\<forall>sc X d. sw sc = Some d \<and> has_columns d X \<longrightarrow>
        (\<exists>Xs. fst (transform lib sc X) = Inr Xs \<and> has_columns d Xs \<and>
              length Xs = length X)) \<and>
     (\<forall>m Xs y m' d. model_fit lib m Xs y = (Inr (), m') \<and> has_columns d Xs \<longrightarrow>
        mw m' = Some d) \<and>
     (\<forall>m X y r m'. score lib m X y = (r, m') \<longrightarrow> mw m' = mw m) \<and>
     (\<forall>m X d. mw m = Some d \<and> has_columns d X \<longrightarrow>
        (\<exists>ls. fst (model_predict lib m X) = Inr ls) \<and>
        (\<exists>P. fst (model_predict_proba lib m X) = Inr P))"

definition probabilities_by_class ::
  "('x, 'l::linorder, 'p::linordered_idom, 'sc, 'm, 'e) library \<Rightarrow> ('m \<Rightarrow> 'l list) \<Rightarrow>
     'p \<Rightarrow> bool" where
  \<comment> \<open>Modelled from the spec: the estimator's probability path is not in the repository.
     Section 4.1 and the testable properties say of it that a row holds one probability per
     class observed during Fit, in the class ordering established during Fit, and sums to
     1 within a tolerance. \<open>cls\<close> reads the classes off a classifier; \<open>tol\<close> is the
     tolerance.\<close>
  "probabilities_by_class lib cls tol \<longleftrightarrow>
     (\<forall>m Xs y m'. model_fit lib m Xs y = (Inr (), m') \<longrightarrow> cls m' = np_unique y) \<and>
     (\<forall>m X y r m'. score lib m X y = (r, m') \<longrightarrow> cls m' = cls m) \<and>
     (\<forall>m X P m'. model_predict_proba lib m X = (Inr P, m') \<longrightarrow>
        length P = length X \<and>
        (\<forall>row\<in>set P. length row = length (cls m) \<and> \<bar>sum_list row - 1\<bar> \<le> tol))"

text \<open>
  Two runs of the library. What a run's own entropy (the process-wide random generator,
  the scheduling of the worker threads) can reach is the estimator built without an
  integer seed; an estimator built with one is the same in every run, and so is every
  other operation.
\<close>

definition agree_when_seeded ::
  "('x, 'l, 'p, 'sc, 'm, 'e) library \<Rightarrow> ('x, 'l, 'p, 'sc, 'm, 'e) library \<Rightarrow> bool" where
  "agree_when_seeded lib1 lib2 \<longleftrightarrow>
     StandardScaler lib1 = StandardScaler lib2 \<and>
     fit_transform lib1 = fit_transform lib2 \<and>
     transform lib1 = transform lib2 \<and>
     model_fit lib1 = model_fit lib2 \<and>
     score lib1 = score lib2 \<and>
     model_predict lib1 = model_predict lib2 \<and>
     model_predict_proba lib1 = model_predict_proba lib2 \<and>
     feature_importances lib1 = feature_importances lib2 \<and>
     argsort lib1 = argsort lib2 \<and>
     (\<forall>ne md mss s nj.
        RandomForestClassifier lib1 ne md mss (PyInt s) nj =
        RandomForestClassifier lib2 ne md mss (PyInt s) nj)"

subsection \<open>A small library to run the wrapper on\<close>

text \<open>
  An executable instance of the interface, for concrete runs of the wrapper: integer
  features, numbered classes, rational scores. Its scaler learns the column means
  (rounded down) and subtracts them; its classifier keeps the training rows and answers
  with the label of the nearest one, the first of several equally near; both refuse what
  they have not been fitted for. The classifier keeps its training rows in the order
  given or in reverse, by the parity of its entropy: the seed when the seed is an
  integer, the entropy of the run otherwise.
\<close>

datatype lib_error = NotFittedError | ValueError

record classifier =
  hyper :: "pyval list"
  n_jobs :: int
  entropy :: nat
  trained :: "(int list \<times> nat) list option"

definition seed_entropy :: "nat \<Rightarrow> pyval \<Rightarrow> nat" where
  "seed_entropy run rs = (case rs of PyInt s \<Rightarrow> nat \<bar>s\<bar> | _ \<Rightarrow> run)"

definition column :: "int list list \<Rightarrow> nat \<Rightarrow> int list" where
  "column X j = map (\<lambda>r. r ! j) X"

definition center :: "int list \<Rightarrow> int list \<Rightarrow> int list" where
  "center mu r = map2 (-) r mu"

definition mean_fit_transform ::
  "int list option \<Rightarrow> int list list \<Rightarrow> (lib_error + int list list) \<times> int list option" where
  "mean_fit_transform sc X =
     (case X of
        [] \<Rightarrow> (Inl ValueError, sc)
      | r # _ \<Rightarrow>
          if has_columns (length r) X
          then (let mu = map (\<lambda>j. sum_list (column X j) div int (length X)) [0..<length r]
                in (Inr (map (center mu) X), Some mu))
          else (Inl ValueError, sc))"

definition mean_transform ::
  "int list option \<Rightarrow> int list list \<Rightarrow> (lib_error + int list list) \<times> int list option" where
  "mean_transform sc X =
     (case sc of
        None \<Rightarrow> (Inl NotFittedError, sc)
      | Some mu \<Rightarrow>
          if has_columns (length mu) X then (Inr (map (center mu) X), sc)
          else (Inl ValueError, sc))"

definition dist :: "int list \<Rightarrow> int list \<Rightarrow> int" where
  "dist r s = sum_list (map2 (\<lambda>a b. \<bar>a - b\<bar>) r s)"

fun nearest :: "(int list \<times> nat) list \<Rightarrow> int list \<Rightarrow> nat" where
  "nearest [] r = 0"
| "nearest [(s, l)] r = l"
| "nearest ((s, l) # (s', l') # tr) r =
     (if dist r s \<le> dist r s' then nearest ((s, l) # tr) r else nearest ((s', l') # tr) r)"

definition nn_fit ::
  "classifier \<Rightarrow> int list list \<Rightarrow> nat list \<Rightarrow> (lib_error + unit) \<times> classifier" where
  "nn_fit m X y =
     (if X = [] \<or> length X \<noteq> length y then (Inl ValueError, m)
      else (Inr (), m\<lparr>trained := Some (if even (entropy m) then zip X y
                                          else rev (zip X y))\<rparr>))"

definition nn_predict ::
  "classifier \<Rightarrow> int list list \<Rightarrow> (lib_error + nat list) \<times> classifier" where
  "nn_predict m X =
     (case trained m of
        None \<Rightarrow> (Inl NotFittedError, m)
      | Some tr \<Rightarrow>
          if tr = [] then (Inl NotFittedError, m)
          else (Inr (map (nearest tr) X), m))"

definition nn_predict_proba ::
  "classifier \<Rightarrow> int list list \<Rightarrow> (lib_error + rat list list) \<times> classifier" where
  "nn_predict_proba m X =
     (case trained m of
        None \<Rightarrow> (Inl NotFittedError, m)
      | Some tr \<Rightarrow>
          if tr = [] then (Inl NotFittedError, m)
          else (Inr (map (\<lambda>r. map (\<lambda>c. if nearest tr r = c then 1 else 0)
                                 (np_unique (map snd tr))) X), m))"

definition nn_score ::
  "classifier \<Rightarrow> int list list \<Rightarrow> nat list \<Rightarrow> (lib_error + rat) \<times> classifier" where
  "nn_score m X y =
     (case trained m of
        None \<Rightarrow> (Inl NotFittedError, m)
      | Some tr \<Rightarrow>
          (Inr (Fract (int (length (filter (\<lambda>(r, l). nearest tr r = l) (zip X y))))
                      (int (length y))), m))"

definition nn_importances :: "classifier \<Rightarrow> rat list option" where
  "nn_importances m =
     (case trained m of
        None \<Rightarrow> None
      | Some tr \<Rightarrow>
          Some (map (\<lambda>j. of_int (Max (set (column (map fst tr) j)) -
                                 Min (set (column (map fst tr) j))))
                    [0..<length (fst (hd tr))]))"

definition stable_argsort :: "('p::linorder) list \<Rightarrow> nat list" where
  "stable_argsort xs = sort_key (\<lambda>i. xs ! i) [0..<length xs]"

definition nn_library :: "(int, nat, rat, int list option, classifier, lib_error) library" where
  "nn_library =
     \<lparr>StandardScaler = None,
      RandomForestClassifier =
        (\<lambda>ne md mss rs nj.
           Inr \<lparr>hyper = [ne, md, mss, rs], n_jobs = nj, entropy = seed_entropy 0 rs,
                trained = None\<rparr>),
      fit_transform = mean_fit_transform,
      transform = mean_transform,
      model_fit = nn_fit,
      score = nn_score,
      model_predict = nn_predict,
      model_predict_proba = nn_predict_proba,
      feature_importances = nn_importances,
      argsort = stable_argsort\<rparr>"

text \<open>The same library in another run, with another entropy.\<close>

definition nn_library_rerun ::
  "(int, nat, rat, int list option, classifier, lib_error) library" where
  "nn_library_rerun =
     nn_library\<lparr>RandomForestClassifier :=
       (\<lambda>ne md mss rs nj.
          Inr \<lparr>hyper = [ne, md, mss, rs], n_jobs = nj, entropy = seed_entropy 1 rs,
               trained = None\<rparr>)\<rparr>"

text \<open>The scenario of the specification, scaled down: four columns, two classes.\<close>

definition cfg :: params where
  "cfg = [''n_estimators'' \<mapsto> PyInt 10, ''random_state'' \<mapsto> PyInt 0]"

definition X_train :: "int list list" where
  "X_train = [[1, 10, 0, 3], [2, 20, 0, 3], [9, 10, 5, 3], [8, 20, 5, 3]]"

definition y_train :: "nat list" where
  "y_train = [0, 0, 1, 1]"

definition X_test :: "int list list" where
  "X_test = [[9, 15, 4, 3], [1, 15, 1, 3], [7, 12, 5, 3]]"

definition fresh :: "(int list option, classifier) algorithm" where
  "fresh = \<lparr>n_estimators = PyInt 10, max_depth = PyNone, min_samples_split = PyInt 2,
            random_state = PyInt 0, scaler = None,
            model = \<lparr>hyper = [PyInt 10, PyNone, PyInt 2, PyInt 0], n_jobs = - 1,
                     entropy = 0, trained = None\<rparr>\<rparr>"

definition fitted :: "(int list option, classifier) algorithm" where
  "fitted = wrapper (fit nn_library fresh X_train y_train)"

subsection \<open>Observations on a run\<close>

fun reported_features :: "('l, 'p) log_line list \<Rightarrow> (nat \<times> 'p) list" where
  \<comment> \<open>The feature lines of an output, in the order they were printed.\<close>
  "reported_features [] = []"
| "reported_features (FeatureImportance i v # ls) = (i, v) # reported_features ls"
| "reported_features (_ # ls) = reported_features ls"

text \<open>
  The wrappers on which \<open>fit\<close> has never been called: a freshly constructed one, and
  whatever a prediction call leaves of such a wrapper.
\<close>

inductive never_fit ::
  "('x, 'l::linorder, 'p, 'sc, 'm, 'e) library \<Rightarrow> ('sc, 'm) algorithm \<Rightarrow> bool"
  for lib :: "('x, 'l::linorder, 'p, 'sc, 'm, 'e) library" where
  constructed: "fst (init lib ps) = Inr w \<Longrightarrow> never_fit lib w"
| after_predict: "never_fit lib w \<Longrightarrow> never_fit lib (wrapper (predict lib w X))"
| after_predict_proba: "never_fit lib w \<Longrightarrow> never_fit lib (wrapper (predict_proba lib w X))"

subsection \<open>Row functions and data for the small library\<close>

definition scaled_row :: "int list option \<Rightarrow> int list \<Rightarrow> int list" where
  "scaled_row sc r = (case sc of None \<Rightarrow> r | Some mu \<Rightarrow> center mu r)"

definition nn_label :: "classifier \<Rightarrow> int list \<Rightarrow> nat" where
  "nn_label m r = (case trained m of None \<Rightarrow> 0 | Some tr \<Rightarrow> nearest tr r)"

definition nn_scaler_columns :: "int list option \<Rightarrow> nat option" where
  "nn_scaler_columns sc = map_option length sc"

definition nn_model_columns :: "classifier \<Rightarrow> nat option" where
  "nn_model_columns m =
     (case trained m of
        None \<Rightarrow> None
      | Some tr \<Rightarrow> (case tr of [] \<Rightarrow> None | (r, l) # _ \<Rightarrow> Some (length r)))"

definition nn_classes :: "classifier \<Rightarrow> nat list" where
  "nn_classes m = (case trained m of None \<Rightarrow> [] | Some tr \<Rightarrow> np_unique (map snd tr))"

definition cfg_unseeded :: params where
  "cfg_unseeded = [''random_state'' \<mapsto> PyNone]"

definition cfg_odd :: params where
  "cfg_odd = [''n_estimators'' \<mapsto> PyInt (- 3), ''max_depth'' \<mapsto> PyStr ''deep'']"

definition X_tie :: "int list list" where
  "X_tie = [[5, 5, 5, 5]]"

definition cfg_verbose :: params where
  "cfg_verbose = cfg(''verbose'' \<mapsto> PyInt 1)"

definition X_other :: "int list list" where
  "X_other = [[0, 0, 0, 0], [10, 10, 10, 10]]"

definition y_other :: "nat list" where
  "y_other = [1, 0]"

definition X_wide :: "int list list" where
  "X_wide = [[1, 10, 0, 3, 7, 2], [2, 20, 0, 3, 1, 2], [9, 10, 5, 3, 4, 4]]"

definition y_wide :: "nat list" where
  "y_wide = [0, 0, 1]"

section \<open>Facts about the wrapper\<close>

lemma read_only_transform:
  "read_only lib \<Longrightarrow> transform lib sc X = (r, sc') \<Longrightarrow> sc' = sc"
  unfolding read_only_def by (metis snd_conv)

lemma read_only_predict:
  "read_only lib \<Longrightarrow> model_predict lib m X = (r, m') \<Longrightarrow> m' = m"
  unfolding read_only_def by (metis snd_conv)

lemma read_only_predict_proba:
  "read_only lib \<Longrightarrow> model_predict_proba lib m X = (r, m') \<Longrightarrow> m' = m"
  unfolding read_only_def by (metis snd_conv)

lemma predict_keeps_wrapper:
  assumes "read_only lib"
  shows "wrapper (predict lib w X) = w"
proof -
  obtain r1 sc1 where t: "transform lib (scaler w) X = (r1, sc1)"
    by (cases "transform lib (scaler w) X")
  have sc: "sc1 = scaler w"
    using assms t by (rule read_only_transform)
  show ?thesis
  proof (cases r1)
    case (Inl e)
    with t sc show ?thesis by (simp add: predict_def)
  next
    case (Inr Xs)
    obtain r2 m2 where p: "model_predict lib (model w) Xs = (r2, m2)"
      by (cases "model_predict lib (model w) Xs")
    have "m2 = model w"
      using assms p by (rule read_only_predict)
    with t sc Inr p show ?thesis
      by (cases r2) (simp_all add: predict_def)
  qed
qed

lemma predict_proba_keeps_wrapper:
  assumes "read_only lib"
  shows "wrapper (predict_proba lib w X) = w"
proof -
  obtain r1 sc1 where t: "transform lib (scaler w) X = (r1, sc1)"
    by (cases "transform lib (scaler w) X")
  have sc: "sc1 = scaler w"
    using assms t by (rule read_only_transform)
  show ?thesis
  proof (cases r1)
    case (Inl e)
    with t sc show ?thesis by (simp add: predict_proba_def)
  next
    case (Inr Xs)
    obtain r2 m2 where p: "model_predict_proba lib (model w) Xs = (r2, m2)"
      by (cases "model_predict_proba lib (model w) Xs")
    have "m2 = model w"
      using assms p by (rule read_only_predict_proba)
    with t sc Inr p show ?thesis
      by (cases r2) (simp_all add: predict_proba_def)
  qed
qed

lemma predict_result:
  "result (predict lib w X) =
     (case fst (transform lib (scaler w) X) of
        Inl e \<Rightarrow> Inl (LibraryError e)
      | Inr Xs \<Rightarrow>
          (case fst (model_predict lib (model w) Xs) of
             Inl e \<Rightarrow> Inl (LibraryError e)
           | Inr ls \<Rightarrow> Inr ls))"
  by (simp add: predict_def Let_def split: prod.splits sum.splits)

lemma predict_proba_result:
  "result (predict_proba lib w X) =
     (case fst (transform lib (scaler w) X) of
        Inl e \<Rightarrow> Inl (LibraryError e)
      | Inr Xs \<Rightarrow>
          (case fst (model_predict_proba lib (model w) Xs) of
             Inl e \<Rightarrow> Inl (LibraryError e)
           | Inr ps \<Rightarrow> Inr ps))"
  by (simp add: predict_proba_def Let_def split: prod.splits sum.splits)

lemma fit_success:
  assumes "result (fit lib w X y) = Inr u"
  shows "\<exists>Xs sc1 m2 acc m3.
           fit_transform lib (scaler w) X = (Inr Xs, sc1) \<and>
           model_fit lib (model w) Xs y = (Inr (), m2) \<and>
           score lib m2 Xs y = (Inr acc, m3) \<and>
           wrapper (fit lib w X y) = w\<lparr>scaler := sc1, model := m3\<rparr>"
  using assms
  by (auto simp: fit_def Let_def split: prod.splits sum.splits list.splits option.splits if_splits)

lemma print_importances_lines:
  "print_importances imp idxs = (ls, True) \<Longrightarrow>
     ls = map (\<lambda>i. FeatureImportance i (imp ! i)) idxs"
  by (induction idxs arbitrary: ls) (auto split: if_splits prod.splits)

lemma reported_features_append:
  "reported_features (xs @ ys) = reported_features xs @ reported_features ys"
  by (induction xs rule: reported_features.induct) simp_all

lemma reported_features_lines:
  "reported_features (map (\<lambda>i. FeatureImportance i (f i)) idxs) = map (\<lambda>i. (i, f i)) idxs"
  by (induction idxs) simp_all

lemma fit_reported:
  assumes "result (fit lib w X y) = Inr u"
    and "feature_importances lib (model (wrapper (fit lib w X y))) = Some imp"
  shows "reported_features (printed (fit lib w X y)) =
           map (\<lambda>i. (i, imp ! i)) (rev (slice_last 5 (argsort lib imp)))"
proof -
  obtain ls ok where p:
    "print_importances imp (rev (slice_last 5 (argsort lib imp))) =
       ((ls :: ('b, 'c) log_line list), ok)"
    by (cases "print_importances imp (rev (slice_last 5 (argsort lib imp))) ::
                 ('b, 'c) log_line list \<times> bool")
  show ?thesis
  proof (cases ok)
    case True
    with p have "ls = map (\<lambda>i. FeatureImportance i (imp ! i))
                        (rev (slice_last 5 (argsort lib imp)))"
      by (simp add: print_importances_lines)
    with assms p show ?thesis
      by (auto simp: fit_def Let_def reported_features_append reported_features_lines
          split: prod.splits sum.splits list.splits option.splits if_splits)
  next
    case False
    with assms p show ?thesis
      by (auto simp: fit_def Let_def
          split: prod.splits sum.splits list.splits option.splits if_splits)
  qed
qed

lemma print_importances_ok:
  "\<forall>i\<in>set idxs. i < length imp \<Longrightarrow>
     print_importances imp idxs = (map (\<lambda>i. FeatureImportance i (imp ! i)) idxs, True)"
  by (induction idxs) simp_all

lemma top_indices_in_range:
  assumes "sorts_indices lib"
  shows "\<forall>i\<in>set (rev (slice_last 5 (argsort lib imp))). i < length imp"
proof -
  from assms have "set (argsort lib imp) = {0..<length imp}"
    unfolding sorts_indices_def by blast
  then show ?thesis
    using set_drop_subset [of "length (argsort lib imp) - 5" "argsort lib imp"]
    by (auto simp: slice_last_def)
qed

lemma fit_runs:
  assumes "sorts_indices lib"
    and "X \<noteq> []"
    and "fit_transform lib (scaler w) X = (Inr Xs, sc1)"
    and "model_fit lib (model w) Xs y = (Inr (), m2)"
    and "score lib m2 Xs y = (Inr acc, m3)"
  shows "result (fit lib w X y) = Inr ()"
    and "wrapper (fit lib w X y) = w\<lparr>scaler := sc1, model := m3\<rparr>"
proof -
  from assms(2) obtain r X' where X: "X = r # X'" by (cases X) auto
  have ok: "\<And>imp. print_importances imp (rev (slice_last 5 (argsort lib imp))) =
              ((map (\<lambda>i. FeatureImportance i (imp ! i))
                 (rev (slice_last 5 (argsort lib imp)))) :: ('b, 'c) log_line list, True)"
    using top_indices_in_range [OF assms(1)] by (rule print_importances_ok)
  show "result (fit lib w X y) = Inr ()"
    using assms(3-5) X
    by (simp add: fit_def Let_def np_shape_def ok split: option.splits)
  show "wrapper (fit lib w X y) = w\<lparr>scaler := sc1, model := m3\<rparr>"
    using assms(3-5) X
    by (simp add: fit_def Let_def np_shape_def ok split: option.splits)
qed

lemma has_columns_nonempty: "has_columns d X \<Longrightarrow> X \<noteq> []"
  by (simp add: has_columns_def)

lemma tracks_new_scaler:
  "tracks_columns lib sw mw \<Longrightarrow> sw (StandardScaler lib) = None"
  unfolding tracks_columns_def by (elim conjE)

lemma tracks_constructor:
  "tracks_columns lib sw mw \<Longrightarrow> RandomForestClassifier lib ne md mss rs nj = Inr m \<Longrightarrow>
     mw m = None"
  unfolding tracks_columns_def by (elim conjE) metis

lemma tracks_fit_transform:
  "tracks_columns lib sw mw \<Longrightarrow> fit_transform lib sc X = (Inr Xs, sc') \<Longrightarrow>
     has_columns d X \<Longrightarrow> sw sc' = Some d \<and> has_columns d Xs"
  unfolding tracks_columns_def by (elim conjE) metis

lemma tracks_transform:
  "tracks_columns lib sw mw \<Longrightarrow> sw sc = Some d \<Longrightarrow> has_columns d X \<Longrightarrow>
     \<exists>Xs. fst (transform lib sc X) = Inr Xs \<and> has_columns d Xs \<and> length Xs = length X"
  unfolding tracks_columns_def by (elim conjE) metis

lemma tracks_model_fit:
  "tracks_columns lib sw mw \<Longrightarrow> model_fit lib m Xs y = (Inr (), m') \<Longrightarrow>
     has_columns d Xs \<Longrightarrow> mw m' = Some d"
  unfolding tracks_columns_def by (elim conjE) metis

lemma tracks_score:
  "tracks_columns lib sw mw \<Longrightarrow> score lib m X y = (r, m') \<Longrightarrow> mw m' = mw m"
  unfolding tracks_columns_def by (elim conjE) metis

lemma tracks_predict:
  "tracks_columns lib sw mw \<Longrightarrow> mw m = Some d \<Longrightarrow> has_columns d X \<Longrightarrow>
     (\<exists>ls. fst (model_predict lib m X) = Inr ls) \<and>
     (\<exists>P. fst (model_predict_proba lib m X) = Inr P)"
  unfolding tracks_columns_def by (elim conjE) metis

lemma fit_leaves_fitted:
  assumes "tracks_columns lib sw mw"
    and "result (fit lib w0 X y) = Inr u"
    and "has_columns d X"
  shows "sw (scaler (wrapper (fit lib w0 X y))) = Some d \<and>
         mw (model (wrapper (fit lib w0 X y))) = Some d"
proof -
  from fit_success [OF assms(2)] obtain Xs sc1 m2 acc m3 where
    f: "fit_transform lib (scaler w0) X = (Inr Xs, sc1)"
    and m: "model_fit lib (model w0) Xs y = (Inr (), m2)"
    and s: "score lib m2 Xs y = (Inr acc, m3)"
    and w: "wrapper (fit lib w0 X y) = w0\<lparr>scaler := sc1, model := m3\<rparr>"
    by blast
  from tracks_fit_transform [OF assms(1) f assms(3)]
  have sc: "sw sc1 = Some d" and Xs: "has_columns d Xs" by simp_all
  from tracks_model_fit [OF assms(1) m Xs] have "mw m2 = Some d" .
  moreover from tracks_score [OF assms(1) s] have "mw m3 = mw m2" .
  ultimately show ?thesis using sc w by simp
qed

lemma fitted_accepts:
  assumes "tracks_columns lib sw mw"
    and "sw (scaler w) = Some d"
    and "mw (model w) = Some d"
    and "has_columns d X"
  shows "\<exists>Xs ls P. fst (transform lib (scaler w) X) = Inr Xs \<and> length Xs = length X \<and>
                   fst (model_predict lib (model w) Xs) = Inr ls \<and>
                   fst (model_predict_proba lib (model w) Xs) = Inr P"
proof -
  from tracks_transform [OF assms(1,2,4)] obtain Xs where
    t: "fst (transform lib (scaler w) X) = Inr Xs" and Xs: "has_columns d Xs"
    and len: "length Xs = length X"
    by blast
  from tracks_predict [OF assms(1,3) Xs] t len show ?thesis by blast
qed

section \<open>Facts about the small library\<close>

lemma nn_read_only: "read_only nn_library"
  by (simp add: read_only_def nn_library_def mean_transform_def nn_predict_def
      nn_predict_proba_def split: option.splits)

lemma nn_row_wise: "row_wise nn_library scaled_row nn_label"
  by (auto simp: row_wise_def nn_library_def mean_transform_def nn_predict_def
      scaled_row_def nn_label_def split: option.splits if_splits)

lemma nn_rejects_unfitted: "rejects_unfitted nn_library"
  by (simp add: rejects_unfitted_def nn_library_def mean_transform_def)

lemma nn_sorts_indices: "sorts_indices nn_library"
  by (simp add: sorts_indices_def nn_library_def stable_argsort_def sorted_sort_key)

lemma init_cfg: "fst (init nn_library cfg) = Inr fresh"
  by (simp add: init_def nn_library_def cfg_def fresh_def dict_get_def seed_entropy_def Let_def)

lemma init_cfg_verbose: "fst (init nn_library cfg_verbose) = Inr fresh"
  by (simp add: init_def nn_library_def cfg_verbose_def cfg_def fresh_def dict_get_def
      seed_entropy_def Let_def)

lemma fit_fresh:
  "fit nn_library fresh X_train y_train =
     \<lparr>result = Inr (),
      printed = [StartingTraining, TrainingDataShape [4, 4] [4], TargetClasses [0, 1],
                 StandardizingFeatures, TrainingTrees (PyInt 10), TrainingCompleted,
                 TrainingAccuracy 1, NumberOfFeatures 4, NumberOfSamples 4,
                 TopFeatureImportances, FeatureImportance 1 10, FeatureImportance 0 8,
                 FeatureImportance 2 5, FeatureImportance 3 0],
      wrapper = fresh\<lparr>scaler := Some [5, 15, 2, 3],
                  model := (model fresh)\<lparr>trained :=
                    Some [([- 4, - 5, - 2, 0], 0), ([- 3, 5, - 2, 0], 0),
                          ([4, - 5, 3, 0], 1), ([3, 5, 3, 0], 1)]\<rparr>\<rparr>\<rparr>"
  by code_simp

lemma fitted_value:
  "fitted = fresh\<lparr>scaler := Some [5, 15, 2, 3],
                  model := (model fresh)\<lparr>trained :=
                    Some [([- 4, - 5, - 2, 0], 0), ([- 3, 5, - 2, 0], 0),
                          ([4, - 5, 3, 0], 1), ([3, 5, 3, 0], 1)]\<rparr>\<rparr>"
  by (simp add: fitted_def fit_fresh)

lemma predict_fitted:
  "predict nn_library fitted X_test =
     \<lparr>result = Inr [1, 0, 1],
      printed = [MakingPredictions, PredictionDataShape [3, 4], GeneratedPredictions 3,
                 PredictionDistribution [(0, 1), (1, 2)]],
      wrapper = fitted\<rparr>"
  unfolding fitted_value by code_simp

lemma center_length: "length mu = d \<Longrightarrow> length r = d \<Longrightarrow> length (center mu r) = d"
  by (simp add: center_def)

lemma has_columns_center:
  "length mu = d \<Longrightarrow> has_columns d X \<Longrightarrow> has_columns d (map (center mu) X)"
  by (auto simp: has_columns_def list_all_iff center_length)

lemma first_row_columns:
  assumes "tr \<noteq> []" and "\<forall>p\<in>set tr. length (fst p) = d"
  shows "(case tr of [] \<Rightarrow> None | (r, l) # _ \<Rightarrow> Some (length r)) = Some d"
  using assms by (cases tr) (auto split: prod.splits)

lemma nn_fit_columns:
  assumes "nn_fit m Xs y = (Inr (), m')" and "has_columns d Xs"
  shows "nn_model_columns m' = Some d"
proof -
  from assms(1) have ne: "Xs \<noteq> []" and len: "length Xs = length y"
    and tr: "trained m' = Some (if even (entropy m) then zip Xs y else rev (zip Xs y))"
    by (auto simp: nn_fit_def split: if_splits)
  let ?tr = "if even (entropy m) then zip Xs y else rev (zip Xs y)"
  from ne len have "zip Xs y \<noteq> []" by (cases Xs; cases y) auto
  then have "?tr \<noteq> []" by simp
  moreover have "\<forall>p\<in>set ?tr. length (fst p) = d"
    using assms(2) by (auto simp: has_columns_def list_all_iff dest: set_zip_leftD)
  ultimately show ?thesis
    using tr first_row_columns [of ?tr d] by (simp add: nn_model_columns_def)
qed

lemma nn_tracks_columns: "tracks_columns nn_library nn_scaler_columns nn_model_columns"
  unfolding tracks_columns_def
proof (intro conjI allI impI)
  show "nn_scaler_columns (StandardScaler nn_library) = None"
    by (simp add: nn_library_def nn_scaler_columns_def)
next
  fix ne md mss rs nj m
  assume "RandomForestClassifier nn_library ne md mss rs nj = Inr m"
  then show "nn_model_columns m = None"
    by (auto simp: nn_library_def nn_model_columns_def)
next
  fix sc X Xs sc' d
  assume a: "fit_transform nn_library sc X = (Inr Xs, sc') \<and> has_columns d X"
  then obtain r X' where X: "X = r # X'"
    by (cases X) (auto simp: has_columns_def)
  with a have d: "length r = d" by (simp add: has_columns_def)
  let ?mu = "map (\<lambda>j. sum_list (column X j) div int (length X)) [0..<length r]"
  from a X d have sc': "sc' = Some ?mu" and Xs: "Xs = map (center ?mu) X"
    by (auto simp: nn_library_def mean_fit_transform_def Let_def split: if_splits)
  from sc' d show "nn_scaler_columns sc' = Some d"
    by (simp add: nn_scaler_columns_def)
  from a d show "has_columns d Xs"
    unfolding Xs by (intro has_columns_center) simp_all
next
  fix sc and X :: "int list list" and d
  assume a: "nn_scaler_columns sc = Some d \<and> has_columns d X"
  then obtain mu where sc: "sc = Some mu" and mu: "length mu = d"
    by (auto simp: nn_scaler_columns_def)
  with a have "fst (transform nn_library sc X) = Inr (map (center mu) X)"
    by (simp add: nn_library_def mean_transform_def)
  moreover from a mu have "has_columns d (map (center mu) X)"
    by (intro has_columns_center) simp_all
  ultimately show "\<exists>Xs. fst (transform nn_library sc X) = Inr Xs \<and> has_columns d Xs \<and>
                       length Xs = length X"
    by simp
next
  fix m Xs y m' d
  assume "model_fit nn_library m Xs y = (Inr (), m') \<and> has_columns d Xs"
  then show "nn_model_columns m' = Some d"
    using nn_fit_columns [of m Xs y m' d] by (simp add: nn_library_def)
next
  fix m X y r m'
  assume "score nn_library m X y = (r, m')"
  then show "nn_model_columns m' = nn_model_columns m"
    by (auto simp: nn_library_def nn_score_def split: option.splits)
next
  fix m and X :: "int list list" and d
  assume a: "nn_model_columns m = Some d \<and> has_columns d X"
  then obtain tr where tr: "trained m = Some tr" "tr \<noteq> []"
    by (auto simp: nn_model_columns_def split: option.splits list.splits)
  then show "\<exists>ls. fst (model_predict nn_library m X) = Inr ls"
    by (simp add: nn_library_def nn_predict_def)
  from tr show "\<exists>P. fst (model_predict_proba nn_library m X) = Inr P"
    by (simp add: nn_library_def nn_predict_proba_def)
qed

lemma nearest_is_a_label: "tr \<noteq> [] \<Longrightarrow> nearest tr r \<in> snd ` set tr"
  by (induction tr r rule: nearest.induct) auto

lemma indicator_sum_absent:
  "a \<notin> set cs \<Longrightarrow> sum_list (map (\<lambda>c. if a = c then 1 else 0) cs) = (0::rat)"
  by (induction cs) auto

lemma indicator_sum_present:
  "distinct cs \<Longrightarrow> a \<in> set cs \<Longrightarrow>
     sum_list (map (\<lambda>c. if a = c then 1 else 0) cs) = (1::rat)"
  by (induction cs) (auto simp: indicator_sum_absent)

lemma np_unique_set: "set (np_unique ys) = set ys"
  by (simp add: np_unique_def)

lemma np_unique_distinct: "distinct (np_unique ys)"
  by (simp add: np_unique_def)

lemma np_unique_rev: "np_unique (rev ys) = np_unique ys"
  unfolding np_unique_def
  by (rule sorted_distinct_set_unique) simp_all

lemma np_unique_length: "length (np_unique ys) = card (set ys)"
  by (simp add: np_unique_def length_remdups_card_conv)

lemma nn_probabilities_by_class: "probabilities_by_class nn_library nn_classes 0"
  unfolding probabilities_by_class_def
proof (intro conjI allI impI ballI)
  fix m Xs y m'
  assume "model_fit nn_library m Xs y = (Inr (), m')"
  then have len: "length Xs = length y"
    and tr: "trained m' = Some (if even (entropy m) then zip Xs y else rev (zip Xs y))"
    by (auto simp: nn_library_def nn_fit_def split: if_splits)
  from len have "map snd (zip Xs y) = y" by simp
  with tr show "nn_classes m' = np_unique y"
    by (simp add: nn_classes_def rev_map [symmetric] np_unique_rev)
next
  fix m X y r m'
  assume "score nn_library m X y = (r, m')"
  then show "nn_classes m' = nn_classes m"
    by (auto simp: nn_library_def nn_score_def split: option.splits)
next
  fix m X P m'
  assume "model_predict_proba nn_library m X = (Inr P, m')"
  then show "length P = length X"
    by (auto simp: nn_library_def nn_predict_proba_def split: option.splits if_splits)
next
  fix m X P m' row
  assume a: "model_predict_proba nn_library m X = (Inr P, m')" and row: "row \<in> set P"
  from a obtain tr where tr: "trained m = Some tr" "tr \<noteq> []"
    and P: "P = map (\<lambda>r. map (\<lambda>c. if nearest tr r = c then 1 else 0)
                            (np_unique (map snd tr))) X"
    by (auto simp: nn_library_def nn_predict_proba_def split: option.splits if_splits)
  from row P obtain r where
    r: "row = map (\<lambda>c. if nearest tr r = c then 1 else 0) (np_unique (map snd tr))"
    by auto
  from tr r show "length row = length (nn_classes m)"
    by (simp add: nn_classes_def)
  from tr(2) have "nearest tr r \<in> set (np_unique (map snd tr))"
    using nearest_is_a_label [of tr r] by (simp add: np_unique_set)
  then have "sum_list row = 1"
    unfolding r by (intro indicator_sum_present np_unique_distinct)
  then show "\<bar>sum_list row - 1\<bar> \<le> 0" by simp
qed

lemma nn_agree_when_seeded: "agree_when_seeded nn_library nn_library_rerun"
  by (simp add: agree_when_seeded_def nn_library_rerun_def nn_library_def seed_entropy_def)

lemma has_columns_train: "has_columns 4 X_train"
  by (simp add: has_columns_def X_train_def)

lemma has_columns_test: "has_columns 4 X_test"
  by (simp add: has_columns_def X_test_def)

lemma has_columns_other: "has_columns 4 X_other"
  by (simp add: has_columns_def X_other_def)

lemma never_fit_scaler:
  assumes "read_only lib" and "never_fit lib w"
  shows "scaler w = StandardScaler lib"
  using assms(2)
proof (induction rule: never_fit.induct)
  case (constructed ps w)
  then show ?case
    by (auto simp: init_def Let_def split: sum.splits)
next
  case (after_predict w X)
  with assms(1) show ?case by (simp add: predict_keeps_wrapper)
next
  case (after_predict_proba w X)
  with assms(1) show ?case by (simp add: predict_proba_keeps_wrapper)
qed

section \<open>The claims\<close>

text \<open>
  C6. What construction returns is fixed by the configuration and by the classifier's
  constructor alone. Each of the four options resolves to the value of its key when the
  key is present, whatever that value is, and otherwise to its documented default
  (\<open>n_estimators\<close> 100, \<open>max_depth\<close> None, \<open>min_samples_split\<close> 2, \<open>random_state\<close> 42).
  The constructor is called on exactly the resolved values; construction fails only
  where the constructor does, with its error, and otherwise yields the wrapper holding
  the resolved values, a new scaler and the new classifier.
\<close>

theorem init_resolves_defaults:
  assumes "ne = (case ps ''n_estimators'' of None \<Rightarrow> PyInt 100 | Some v \<Rightarrow> v)"
    and "md = (case ps ''max_depth'' of None \<Rightarrow> PyNone | Some v \<Rightarrow> v)"
    and "mss = (case ps ''min_samples_split'' of None \<Rightarrow> PyInt 2 | Some v \<Rightarrow> v)"
    and "rs = (case ps ''random_state'' of None \<Rightarrow> PyInt 42 | Some v \<Rightarrow> v)"
  shows "fst (init lib ps) =
           (case RandomForestClassifier lib ne md mss rs (- 1) of
              Inl e \<Rightarrow> Inl (LibraryError e)
            | Inr m \<Rightarrow>
                Inr \<lparr>n_estimators = ne, max_depth = md, min_samples_split = mss,
                     random_state = rs, scaler = StandardScaler lib, model = m\<rparr>)"
  using assms
  by (simp add: init_def dict_get_def Let_def split: sum.splits)

theorem init_resolves_defaults_witness:
  "fst (init nn_library Map.empty) =
     Inr \<lparr>n_estimators = PyInt 100, max_depth = PyNone, min_samples_split = PyInt 2,
          random_state = PyInt 42, scaler = None,
          model = \<lparr>hyper = [PyInt 100, PyNone, PyInt 2, PyInt 42], n_jobs = - 1,
                   entropy = 42, trained = None\<rparr>\<rparr> \<and>
   fst (init nn_library cfg_odd) =
     Inr \<lparr>n_estimators = PyInt (- 3), max_depth = PyStr ''deep'',
          min_samples_split = PyInt 2, random_state = PyInt 42, scaler = None,
          model = \<lparr>hyper = [PyInt (- 3), PyStr ''deep'', PyInt 2, PyInt 42], n_jobs = - 1,
                   entropy = 42, trained = None\<rparr>\<rparr>"
  using init_resolves_defaults [OF refl refl refl refl, of nn_library Map.empty]
    init_resolves_defaults [OF refl refl refl refl, of nn_library cfg_odd]
  by (simp add: nn_library_def seed_entropy_def cfg_odd_def)

text \<open>
  C1. With a library whose estimators accept, once fitted, every matrix of the column
  count they were fitted on, and whose transform and predict treat each row on its own:
  after a successful Fit on a matrix with \<open>d\<close> columns, Predict on any matrix with \<open>d\<close>
  columns returns labels, one per input row, the i-th label being the label of the i-th
  row.
\<close>

theorem predict_one_label_per_row:
  assumes "tracks_columns lib sw mw"
    and "row_wise lib t p"
    and "result (fit lib w0 Xtr y) = Inr ()"
    and "w = wrapper (fit lib w0 Xtr y)"
    and "has_columns d Xtr"
    and "has_columns d X"
  shows "\<exists>ls. result (predict lib w X) = Inr ls \<and> length ls = length X \<and>
              ls = map (\<lambda>row. p (model w) (t (scaler w) row)) X"
proof -
  from fit_leaves_fitted [OF assms(1,3,5)] assms(4)
  have "sw (scaler w) = Some d" and "mw (model w) = Some d" by simp_all
  from fitted_accepts [OF assms(1) this assms(6)] obtain Xs ls where
    t: "fst (transform lib (scaler w) X) = Inr Xs"
    and p: "fst (model_predict lib (model w) Xs) = Inr ls"
    by blast
  from assms(2) t have Xs: "Xs = map (t (scaler w)) X"
    unfolding row_wise_def by blast
  from assms(2) p have ls: "ls = map (p (model w)) Xs"
    unfolding row_wise_def by blast
  from t p have "result (predict lib w X) = Inr ls"
    by (simp add: predict_result)
  with Xs ls show ?thesis by simp
qed

theorem predict_one_label_per_row_witness:
  "tracks_columns nn_library nn_scaler_columns nn_model_columns \<and>
   row_wise nn_library scaled_row nn_label \<and>
   result (fit nn_library fresh X_train y_train) = Inr () \<and>
   has_columns 4 X_train \<and> has_columns 4 X_test \<and>
   result (predict nn_library fitted X_test) = Inr [1, 0, 1] \<and>
   length [1, 0, 1 :: nat] = length X_test \<and>
   [1, 0, 1] = map (\<lambda>row. nn_label (model fitted) (scaled_row (scaler fitted) row)) X_test"
proof -
  have r: "result (fit nn_library fresh X_train y_train) = Inr ()"
    by (simp add: fit_fresh)
  from predict_one_label_per_row
    [OF nn_tracks_columns nn_row_wise r fitted_def has_columns_train has_columns_test]
    nn_tracks_columns nn_row_wise r has_columns_train has_columns_test
  show ?thesis by (auto simp: predict_fitted)
qed

text \<open>
  C3. With a library whose transform and predict do not change the object they are called
  on, a second Predict on the same input gives the same call outcome as the first: the
  same labels, the same printed lines, the same wrapper.
\<close>

theorem predict_twice_same_output:
  assumes "read_only lib"
  shows "predict lib (wrapper (predict lib w X)) X = predict lib w X"
  using assms by (simp add: predict_keeps_wrapper)

theorem predict_twice_same_output_witness:
  "read_only nn_library \<and>
   predict nn_library (wrapper (predict nn_library fitted X_test)) X_test =
     predict nn_library fitted X_test \<and>
   result (predict nn_library fitted X_test) = Inr [1, 0, 1]"
  using predict_twice_same_output [OF nn_read_only, of fitted X_test] nn_read_only
  by (simp add: predict_fitted)

text \<open>
  C4. With a library whose estimators accept, once fitted, every matrix of the column
  count they were fitted on, and whose probability rows hold one entry per class seen by
  the classifier's fit and sum to 1 within the tolerance \<open>tol\<close>: after a successful
  Fit on a matrix with \<open>d\<close> columns and labels \<open>y\<close>, PredictProbability on any matrix
  with \<open>d\<close> columns returns one row per input row, each summing to 1 within \<open>tol\<close>
  and each with as many entries as there are distinct labels in \<open>y\<close>.
\<close>

theorem predict_proba_rows:
  assumes "tracks_columns lib sw mw"
    and "probabilities_by_class lib cls tol"
    and "result (fit lib w0 Xtr y) = Inr ()"
    and "w = wrapper (fit lib w0 Xtr y)"
    and "has_columns d Xtr"
    and "has_columns d X"
  shows "\<exists>P. result (predict_proba lib w X) = Inr P \<and> length P = length X \<and>
             (\<forall>row\<in>set P. \<bar>sum_list row - 1\<bar> \<le> tol \<and> length row = card (set y))"
proof -
  from fit_success [OF assms(3)] assms(4) obtain Xs sc1 m2 acc m3 where
    m: "model_fit lib (model w0) Xs y = (Inr (), m2)"
    and s: "score lib m2 Xs y = (Inr acc, m3)"
    and w: "w = w0\<lparr>scaler := sc1, model := m3\<rparr>"
    by auto
  from assms(2) m have "cls m2 = np_unique y"
    unfolding probabilities_by_class_def by (elim conjE) metis
  moreover from assms(2) s have "cls m3 = cls m2"
    unfolding probabilities_by_class_def by (elim conjE) metis
  ultimately have cls: "length (cls (model w)) = card (set y)"
    using w by (simp add: np_unique_length)
  from fit_leaves_fitted [OF assms(1,3,5)] assms(4)
  have "sw (scaler w) = Some d" and "mw (model w) = Some d" by simp_all
  from fitted_accepts [OF assms(1) this assms(6)] obtain Xt P where
    t: "fst (transform lib (scaler w) X) = Inr Xt"
    and len: "length Xt = length X"
    and p: "fst (model_predict_proba lib (model w) Xt) = Inr P"
    by blast
  obtain m' where p': "model_predict_proba lib (model w) Xt = (Inr P, m')"
    using p by (cases "model_predict_proba lib (model w) Xt") auto
  from assms(2) p' have P: "length P = length Xt \<and>
    (\<forall>row\<in>set P. length row = length (cls (model w)) \<and> \<bar>sum_list row - 1\<bar> \<le> tol)"
    unfolding probabilities_by_class_def by (elim conjE) metis
  from t p have "result (predict_proba lib w X) = Inr P"
    by (simp add: predict_proba_result)
  with P len cls show ?thesis by auto
qed

theorem predict_proba_rows_witness:
  "tracks_columns nn_library nn_scaler_columns nn_model_columns \<and>
   probabilities_by_class nn_library nn_classes 0 \<and>
   result (fit nn_library fresh X_train y_train) = Inr () \<and>
   has_columns 4 X_train \<and> has_columns 4 X_test \<and>
   result (predict_proba nn_library fitted X_test) = Inr [[0, 1], [1, 0], [0, 1]] \<and>
   length [[0, 1], [1, 0], [0, 1 :: rat]] = length X_test \<and>
   \<bar>sum_list [0, 1 :: rat] - 1\<bar> \<le> 0 \<and> \<bar>sum_list [1, 0 :: rat] - 1\<bar> \<le> 0 \<and>
   length [0, 1 :: rat] = card (set y_train)"
proof -
  have r: "result (fit nn_library fresh X_train y_train) = Inr ()"
    by (simp add: fit_fresh)
  have pp: "result (predict_proba nn_library fitted X_test) = Inr [[0, 1], [1, 0], [0, 1]]"
    unfolding fitted_value by code_simp
  from predict_proba_rows
    [OF nn_tracks_columns nn_probabilities_by_class r fitted_def has_columns_train
      has_columns_test]
  have "card (set y_train) = 2"
    by (auto simp: pp)
  with nn_tracks_columns nn_probabilities_by_class r has_columns_train has_columns_test pp
  show ?thesis by (simp add: X_test_def)
qed

text \<open>
  C10. Predict and PredictProbability never touch the four hyperparameters, and with a
  library whose transform, predict and predict_proba do not change the object they are
  called on, they leave the whole wrapper (scaler and model included) as it was.
\<close>

theorem prediction_leaves_wrapper_unchanged:
  "n_estimators (wrapper (predict lib w X)) = n_estimators w \<and>
   max_depth (wrapper (predict lib w X)) = max_depth w \<and>
   min_samples_split (wrapper (predict lib w X)) = min_samples_split w \<and>
   random_state (wrapper (predict lib w X)) = random_state w \<and>
   n_estimators (wrapper (predict_proba lib w X)) = n_estimators w \<and>
   max_depth (wrapper (predict_proba lib w X)) = max_depth w \<and>
   min_samples_split (wrapper (predict_proba lib w X)) = min_samples_split w \<and>
   random_state (wrapper (predict_proba lib w X)) = random_state w \<and>
   (read_only lib \<longrightarrow>
      wrapper (predict lib w X) = w \<and> wrapper (predict_proba lib w X) = w)"
proof -
  have "n_estimators (wrapper (predict lib w X)) = n_estimators w"
    "max_depth (wrapper (predict lib w X)) = max_depth w"
    "min_samples_split (wrapper (predict lib w X)) = min_samples_split w"
    "random_state (wrapper (predict lib w X)) = random_state w"
    by (simp_all add: predict_def Let_def split: prod.splits sum.splits)
  moreover have "n_estimators (wrapper (predict_proba lib w X)) = n_estimators w"
    "max_depth (wrapper (predict_proba lib w X)) = max_depth w"
    "min_samples_split (wrapper (predict_proba lib w X)) = min_samples_split w"
    "random_state (wrapper (predict_proba lib w X)) = random_state w"
    by (simp_all add: predict_proba_def Let_def split: prod.splits sum.splits)
  ultimately show ?thesis
    by (simp add: predict_keeps_wrapper predict_proba_keeps_wrapper)
qed

theorem prediction_leaves_wrapper_unchanged_witness:
  "read_only nn_library \<and> wrapper (predict nn_library fitted X_test) = fitted \<and>
   wrapper (predict_proba nn_library fitted X_test) = fitted \<and>
   random_state (wrapper (predict nn_library fitted X_test)) = PyInt 0"
  using prediction_leaves_wrapper_unchanged [of nn_library fitted X_test] nn_read_only
  by (simp add: fitted_value fresh_def)

text \<open>
  A library run is told apart from another only by the estimator it builds without an
  integer seed; the wrapper's methods other than \<open>__init__\<close> never build one, so they
  are the same in both runs.
\<close>

lemma agree_fit:
  assumes "agree_when_seeded lib1 lib2"
  shows "fit lib1 w X y = fit lib2 w X y"
proof -
  from assms have eqs: "fit_transform lib1 = fit_transform lib2"
    "model_fit lib1 = model_fit lib2" "score lib1 = score lib2"
    "feature_importances lib1 = feature_importances lib2" "argsort lib1 = argsort lib2"
    unfolding agree_when_seeded_def by simp_all
  show ?thesis unfolding fit_def eqs by (rule refl)
qed

lemma agree_predict:
  assumes "agree_when_seeded lib1 lib2"
  shows "predict lib1 w X = predict lib2 w X"
proof -
  from assms have eqs: "transform lib1 = transform lib2"
    "model_predict lib1 = model_predict lib2"
    unfolding agree_when_seeded_def by simp_all
  show ?thesis unfolding predict_def eqs by (rule refl)
qed

lemma init_unseeded:
  "fst (init nn_library cfg_unseeded) =
     Inr \<lparr>n_estimators = PyInt 100, max_depth = PyNone, min_samples_split = PyInt 2,
          random_state = PyNone, scaler = None,
          model = \<lparr>hyper = [PyInt 100, PyNone, PyInt 2, PyNone], n_jobs = - 1,
                   entropy = 0, trained = None\<rparr>\<rparr>"
  "fst (init nn_library_rerun cfg_unseeded) =
     Inr \<lparr>n_estimators = PyInt 100, max_depth = PyNone, min_samples_split = PyInt 2,
          random_state = PyNone, scaler = None,
          model = \<lparr>hyper = [PyInt 100, PyNone, PyInt 2, PyNone], n_jobs = - 1,
                   entropy = 1, trained = None\<rparr>\<rparr>"
  by (simp_all add: init_def nn_library_rerun_def nn_library_def cfg_unseeded_def
      dict_get_def seed_entropy_def Let_def)

text \<open>
  The seed has to be an integer: with \<open>random_state\<close> given as None, the same
  configuration and the same data give different predictions in two runs of the small
  library.
\<close>

lemma unseeded_runs_differ:
  "result (predict nn_library
     (wrapper (fit nn_library
        \<lparr>n_estimators = PyInt 100, max_depth = PyNone, min_samples_split = PyInt 2,
         random_state = PyNone, scaler = None,
         model = \<lparr>hyper = [PyInt 100, PyNone, PyInt 2, PyNone], n_jobs = - 1,
                  entropy = 0, trained = None\<rparr>\<rparr> X_other y_other)) X_tie) = Inr [1] \<and>
   result (predict nn_library_rerun
     (wrapper (fit nn_library_rerun
        \<lparr>n_estimators = PyInt 100, max_depth = PyNone, min_samples_split = PyInt 2,
         random_state = PyNone, scaler = None,
         model = \<lparr>hyper = [PyInt 100, PyNone, PyInt 2, PyNone], n_jobs = - 1,
                  entropy = 1, trained = None\<rparr>\<rparr> X_other y_other)) X_tie) = Inr [0]"
  by code_simp

text \<open>
  C2. Two wrappers, each built in a run of its own, from configurations that agree on the
  four recognised options and whose \<open>random_state\<close> is omitted (the default 42) or an
  integer: construction gives the same outcome in both runs, and the two wrappers,
  fitted on the same data, predict the same on the same input. The library's part is
  that an estimator built with an integer seed does not depend on the run; the wrapper's
  part is that the seed it hands over is the configured or default integer and that it
  draws on nothing else.
\<close>

theorem same_seed_same_predictions:
  assumes "agree_when_seeded lib1 lib2"
    and "ps1 ''n_estimators'' = ps2 ''n_estimators''"
    and "ps1 ''max_depth'' = ps2 ''max_depth''"
    and "ps1 ''min_samples_split'' = ps2 ''min_samples_split''"
    and "ps1 ''random_state'' = ps2 ''random_state''"
    and "ps1 ''random_state'' = None \<or> ps1 ''random_state'' = Some (PyInt s)"
  shows "fst (init lib1 ps1) = fst (init lib2 ps2) \<and>
         (\<forall>w1 w2. fst (init lib1 ps1) = Inr w1 \<and> fst (init lib2 ps2) = Inr w2 \<longrightarrow>
            result (predict lib1 (wrapper (fit lib1 w1 Xtr y)) X) =
            result (predict lib2 (wrapper (fit lib2 w2 Xtr y)) X))"
proof -
  from assms(6) obtain s' where rs: "dict_get ps1 ''random_state'' (PyInt 42) = PyInt s'"
    by (auto simp: dict_get_def)
  with assms(5) have rs2: "dict_get ps2 ''random_state'' (PyInt 42) = PyInt s'"
    by (simp add: dict_get_def)
  from assms(1) have c: "\<And>ne md mss nj.
      RandomForestClassifier lib1 ne md mss (PyInt s') nj =
      RandomForestClassifier lib2 ne md mss (PyInt s') nj"
    and sc: "StandardScaler lib1 = StandardScaler lib2"
    unfolding agree_when_seeded_def by blast+
  have "dict_get ps1 ''n_estimators'' = dict_get ps2 ''n_estimators''"
    "dict_get ps1 ''max_depth'' = dict_get ps2 ''max_depth''"
    "dict_get ps1 ''min_samples_split'' = dict_get ps2 ''min_samples_split''"
    using assms(2-4) by (simp_all add: dict_get_def fun_eq_iff)
  then have i: "fst (init lib1 ps1) = fst (init lib2 ps2)"
    using rs rs2 c sc by (simp add: init_def Let_def split: sum.splits)
  show ?thesis
    using i agree_fit [OF assms(1)] agree_predict [OF assms(1)] by auto
qed

theorem same_seed_same_predictions_witness:
  "agree_when_seeded nn_library nn_library_rerun \<and>
   RandomForestClassifier nn_library PyNone PyNone PyNone PyNone 0 \<noteq>
     RandomForestClassifier nn_library_rerun PyNone PyNone PyNone PyNone 0 \<and>
   cfg ''random_state'' = Some (PyInt 0) \<and>
   cfg ''random_state'' = cfg_verbose ''random_state'' \<and>
   cfg ''verbose'' \<noteq> cfg_verbose ''verbose'' \<and>
   fst (init nn_library cfg) = Inr fresh \<and>
   fst (init nn_library_rerun cfg_verbose) = Inr fresh \<and>
   result (predict nn_library (wrapper (fit nn_library fresh X_train y_train)) X_test) =
     Inr [1, 0, 1] \<and>
   result (predict nn_library_rerun
     (wrapper (fit nn_library_rerun fresh X_train y_train)) X_test) = Inr [1, 0, 1]"
proof -
  have eq: "cfg ''n_estimators'' = cfg_verbose ''n_estimators''"
    "cfg ''max_depth'' = cfg_verbose ''max_depth''"
    "cfg ''min_samples_split'' = cfg_verbose ''min_samples_split''"
    "cfg ''random_state'' = cfg_verbose ''random_state''"
    by (simp_all add: cfg_verbose_def)
  have seed: "cfg ''random_state'' = None \<or> cfg ''random_state'' = Some (PyInt 0)"
    by (simp add: cfg_def)
  have differ: "RandomForestClassifier nn_library PyNone PyNone PyNone PyNone 0 \<noteq>
     RandomForestClassifier nn_library_rerun PyNone PyNone PyNone PyNone 0"
    by (simp add: nn_library_rerun_def nn_library_def seed_entropy_def)
  have v: "cfg ''verbose'' \<noteq> cfg_verbose ''verbose''"
    by (simp add: cfg_verbose_def cfg_def)
  have i2: "fst (init nn_library_rerun cfg_verbose) = Inr fresh"
    by (simp add: init_def nn_library_rerun_def nn_library_def cfg_verbose_def cfg_def
        fresh_def dict_get_def seed_entropy_def Let_def)
  from same_seed_same_predictions [OF nn_agree_when_seeded eq seed, of X_train y_train X_test]
  have "\<forall>w1 w2. fst (init nn_library cfg) = Inr w1 \<and>
                 fst (init nn_library_rerun cfg_verbose) = Inr w2 \<longrightarrow>
          result (predict nn_library (wrapper (fit nn_library w1 X_train y_train)) X_test) =
          result (predict nn_library_rerun
            (wrapper (fit nn_library_rerun w2 X_train y_train)) X_test)"
    by blast
  with init_cfg i2
  have "result (predict nn_library (wrapper (fit nn_library fresh X_train y_train)) X_test) =
        result (predict nn_library_rerun
          (wrapper (fit nn_library_rerun fresh X_train y_train)) X_test)"
    by blast
  moreover have "result (predict nn_library
      (wrapper (fit nn_library fresh X_train y_train)) X_test) = Inr [1, 0, 1]"
    using predict_fitted by (simp add: fitted_def)
  ultimately show ?thesis
    using nn_agree_when_seeded differ eq(4) seed v init_cfg i2 by (simp add: cfg_def)
qed

text \<open>
  C5. The wrapper has no check of its own; the failure is the library's. With a library
  whose fresh scaler refuses to transform (and whose prediction calls are read-only, so
  that a failed call leaves the scaler fresh), Predict and PredictProbability on a
  wrapper that was never fitted end with the library's error and return no value.
\<close>

theorem predict_before_fit_fails:
  assumes "read_only lib"
    and "rejects_unfitted lib"
    and "never_fit lib w"
  shows "\<exists>e. fst (transform lib (StandardScaler lib) X) = Inl e \<and>
             result (predict lib w X) = Inl (LibraryError e) \<and>
             result (predict_proba lib w X) = Inl (LibraryError e)"
proof -
  from assms(2) obtain e where e: "fst (transform lib (StandardScaler lib) X) = Inl e"
    unfolding rejects_unfitted_def by (metis isl_def)
  from assms(1,3) have "scaler w = StandardScaler lib"
    by (rule never_fit_scaler)
  with e show ?thesis
    by (simp add: predict_result predict_proba_result)
qed

theorem predict_before_fit_fails_witness:
  "read_only nn_library \<and> rejects_unfitted nn_library \<and> never_fit nn_library fresh \<and>
   fst (transform nn_library (StandardScaler nn_library) X_test) = Inl NotFittedError \<and>
   result (predict nn_library fresh X_test) = Inl (LibraryError NotFittedError) \<and>
   result (predict_proba nn_library fresh X_test) = Inl (LibraryError NotFittedError)"
proof -
  have nf: "never_fit nn_library fresh"
    using init_cfg by (rule never_fit.constructed)
  have "fst (transform nn_library (StandardScaler nn_library) X_test) = Inl NotFittedError"
    by (simp add: nn_library_def mean_transform_def)
  with predict_before_fit_fails [OF nn_read_only nn_rejects_unfitted nf, of X_test]
    nn_read_only nn_rejects_unfitted nf
  show ?thesis by auto
qed

text \<open>
  C7. After a successful Fit the wrapper's scaler is the state that \<open>fit_transform\<close>
  learned from the training features, and Predict transforms its input with that state
  and hands the transformed rows to the model; with a library whose prediction calls
  are read-only the scaler is still that state after Predict, whatever the prediction
  input was.
\<close>

theorem predict_uses_training_statistics:
  assumes "result (fit lib w0 Xtr y) = Inr ()"
    and "w = wrapper (fit lib w0 Xtr y)"
  shows "scaler w = snd (fit_transform lib (scaler w0) Xtr) \<and>
         result (predict lib w X) =
           (case fst (transform lib (snd (fit_transform lib (scaler w0) Xtr)) X) of
              Inl e \<Rightarrow> Inl (LibraryError e)
            | Inr Xs \<Rightarrow>
                (case fst (model_predict lib (model w) Xs) of
                   Inl e \<Rightarrow> Inl (LibraryError e)
                 | Inr ls \<Rightarrow> Inr ls)) \<and>
         (read_only lib \<longrightarrow>
            scaler (wrapper (predict lib w X)) = snd (fit_transform lib (scaler w0) Xtr))"
proof -
  from fit_success [OF assms(1)] assms(2)
  have sc: "scaler w = snd (fit_transform lib (scaler w0) Xtr)"
    by auto
  then show ?thesis
    by (simp add: predict_result predict_keeps_wrapper)
qed

theorem predict_uses_training_statistics_witness:
  "result (fit nn_library fresh X_train y_train) = Inr () \<and>
   snd (fit_transform nn_library (scaler fresh) X_train) = Some [5, 15, 2, 3] \<and>
   scaler fitted = Some [5, 15, 2, 3] \<and>
   fst (transform nn_library (Some [5, 15, 2, 3]) X_test) =
     Inr [[4, 0, 2, 0], [- 4, 0, - 1, 0], [2, - 3, 3, 0]] \<and>
   result (predict nn_library fitted X_test) = Inr [1, 0, 1] \<and>
   read_only nn_library \<and>
   scaler (wrapper (predict nn_library fitted X_test)) = Some [5, 15, 2, 3]"
proof -
  have r: "result (fit nn_library fresh X_train y_train) = Inr ()"
    by (simp add: fit_fresh)
  have s: "snd (fit_transform nn_library (scaler fresh) X_train) = Some [5, 15, 2, 3]"
    unfolding fresh_def by code_simp
  have t: "fst (transform nn_library (Some [5, 15, 2, 3]) X_test) =
             Inr [[4, 0, 2, 0], [- 4, 0, - 1, 0], [2, - 3, 3, 0]]"
    by code_simp
  from predict_uses_training_statistics [OF r fitted_def, of X_test] r s t nn_read_only
    predict_fitted
  show ?thesis by simp
qed

text \<open>
  The tail of an ascending index sort, reversed: its length, and that it holds the
  largest values in descending order.
\<close>

lemma top_of_sorted_indices:
  assumes "distinct a" and "set a = {0..<n}" and "sorted (map f a)"
    and "best = rev (slice_last k a)"
  shows "length best = min k n"
    and "distinct best"
    and "set best \<subseteq> {0..<n}"
    and "sorted_wrt (\<lambda>i j. f j \<le> f i) best"
    and "\<forall>j<n. j \<notin> set best \<longrightarrow> (\<forall>i\<in>set best. f j \<le> f i)"
proof -
  from assms(1,2) have len: "length a = n"
    using distinct_card [of a] by simp
  then show "length best = min k n"
    using assms(4) by (simp add: slice_last_def)
  show "distinct best"
    using assms(1,4) by (simp add: slice_last_def)
  show "set best \<subseteq> {0..<n}"
    using assms(2,4) set_drop_subset [of "length a - k" a] by (simp add: slice_last_def)
  from assms(3) have asc: "sorted_wrt (\<lambda>i j. f i \<le> f j) a"
    by (simp add: sorted_map)
  then have "sorted_wrt (\<lambda>i j. f i \<le> f j) (drop (length a - k) a)"
    by (rule sorted_wrt_drop)
  then show "sorted_wrt (\<lambda>i j. f j \<le> f i) best"
    using assms(4) by (simp add: slice_last_def sorted_wrt_rev)
  show "\<forall>j<n. j \<notin> set best \<longrightarrow> (\<forall>i\<in>set best. f j \<le> f i)"
  proof (intro allI impI ballI)
    fix j i
    assume j: "j < n" "j \<notin> set best" and i: "i \<in> set best"
    let ?m = "length a - k"
    have split: "a = take ?m a @ drop ?m a" by simp
    from i assms(4) have i': "i \<in> set (drop ?m a)"
      by (simp add: slice_last_def)
    from j assms(2) have "j \<in> set a" by simp
    then have "j \<in> set (take ?m a) \<or> j \<in> set (drop ?m a)"
      using split by (metis Un_iff set_append)
    with j(2) assms(4) have j': "j \<in> set (take ?m a)"
      by (simp add: slice_last_def)
    from asc have "sorted_wrt (\<lambda>i j. f i \<le> f j) (take ?m a @ drop ?m a)"
      by simp
    then have "\<forall>x\<in>set (take ?m a). \<forall>y\<in>set (drop ?m a). f x \<le> f y"
      unfolding sorted_wrt_append by blast
    with i' j' show "f j \<le> f i" by blast
  qed
qed

lemma fit_fitted_other:
  "fit nn_library fitted X_other y_other =
     \<lparr>result = Inr (),
      printed = [StartingTraining, TrainingDataShape [2, 4] [2], TargetClasses [0, 1],
                 StandardizingFeatures, TrainingTrees (PyInt 10), TrainingCompleted,
                 TrainingAccuracy 1, NumberOfFeatures 4, NumberOfSamples 2,
                 TopFeatureImportances, FeatureImportance 3 10, FeatureImportance 2 10,
                 FeatureImportance 1 10, FeatureImportance 0 10],
      wrapper = fresh\<lparr>scaler := Some [5, 5, 5, 5],
                  model := (model fresh)\<lparr>trained :=
                    Some [([- 5, - 5, - 5, - 5], 1), ([5, 5, 5, 5], 0)]\<rparr>\<rparr>\<rparr>"
  unfolding fitted_value by code_simp

lemma fit_fresh_wide:
  "fit nn_library fresh X_wide y_wide =
     \<lparr>result = Inr (),
      printed = [StartingTraining, TrainingDataShape [3, 6] [3], TargetClasses [0, 1],
                 StandardizingFeatures, TrainingTrees (PyInt 10), TrainingCompleted,
                 TrainingAccuracy 1, NumberOfFeatures 6, NumberOfSamples 3,
                 TopFeatureImportances, FeatureImportance 1 10, FeatureImportance 0 8,
                 FeatureImportance 4 6, FeatureImportance 2 5, FeatureImportance 5 2],
      wrapper = fresh\<lparr>scaler := Some [4, 13, 1, 3, 4, 2],
                  model := (model fresh)\<lparr>trained :=
                    Some [([- 3, - 3, - 1, 0, 3, 0], 0), ([- 2, 7, - 1, 0, - 3, 0], 0),
                          ([5, - 3, 4, 0, 0, 2], 1)]\<rparr>\<rparr>\<rparr>"
  by code_simp

text \<open>
  C8, as the claim states it, fails: Fit has no guard against a second call. A wrapper
  that was fitted on one data set and is fitted again on another succeeds again, and its
  scaler and model are no longer those of the first call: the fitted state is populated
  a second time, by Fit retraining in place.
\<close>

theorem second_fit_replaces_fitted_state:
  "result (fit nn_library fresh X_train y_train) = Inr () \<and>
   fitted = wrapper (fit nn_library fresh X_train y_train) \<and>
   result (fit nn_library fitted X_other y_other) = Inr () \<and>
   scaler (wrapper (fit nn_library fitted X_other y_other)) \<noteq> scaler fitted \<and>
   model (wrapper (fit nn_library fitted X_other y_other)) \<noteq> model fitted"
proof -
  have "fitted = wrapper (fit nn_library fresh X_train y_train)"
    by (rule fitted_def)
  moreover have "result (fit nn_library fresh X_train y_train) = Inr ()"
    by (simp add: fit_fresh)
  moreover have "result (fit nn_library fitted X_other y_other) = Inr ()"
    by (simp add: fit_fitted_other)
  moreover have "scaler (wrapper (fit nn_library fitted X_other y_other)) \<noteq> scaler fitted"
  proof -
    have s1: "scaler (wrapper (fit nn_library fitted X_other y_other)) = Some [5, 5, 5, 5]"
      by (simp add: fit_fitted_other)
    have s2: "scaler fitted = Some [5, 15, 2, 3]"
      by (simp add: fitted_value)
    show ?thesis unfolding s1 s2 by simp
  qed
  moreover have "model (wrapper (fit nn_library fitted X_other y_other)) \<noteq> model fitted"
  proof -
    have m1: "trained (model (wrapper (fit nn_library fitted X_other y_other))) =
                Some [([- 5, - 5, - 5, - 5], 1), ([5, 5, 5, 5], 0)]"
      by (simp add: fit_fitted_other)
    have m2: "trained (model fitted) =
                Some [([- 4, - 5, - 2, 0], 0), ([- 3, 5, - 2, 0], 0),
                      ([4, - 5, 3, 0], 1), ([3, 5, 3, 0], 1)]"
      by (simp add: fitted_value)
    have "trained (model (wrapper (fit nn_library fitted X_other y_other))) \<noteq>
            trained (model fitted)"
      unfolding m1 m2 by simp
    then show ?thesis by auto
  qed
  ultimately show ?thesis by simp
qed

text \<open>
  C8, amended. At construction the wrapper is unfit: a new scaler and a new classifier,
  neither fitted for any column count. Fit has no guard of its own: on a wrapper in any
  state, fitted or not, it succeeds exactly when the library's \<open>fit_transform\<close>, \<open>fit\<close>
  and \<open>score\<close> succeed in turn, and it then replaces scaler and model by what those
  calls made of the current ones and of this call's data, leaving the wrapper fit for
  the column count of this call. Predict and PredictProbability leave scaler and model
  as they are. So every successful Fit populates the fitted state, a fit wrapper stays
  fit under every successful call, and the one way to retrain is Fit itself.
\<close>

theorem fit_populates_on_every_call:
  assumes "tracks_columns lib sw mw"
    and "sorts_indices lib"
    and "read_only lib"
  shows "(RandomForestClassifier lib (dict_get ps ''n_estimators'' (PyInt 100))
            (dict_get ps ''max_depth'' PyNone) (dict_get ps ''min_samples_split'' (PyInt 2))
            (dict_get ps ''random_state'' (PyInt 42)) (- 1) = Inr m0 \<longrightarrow>
            (\<exists>w0. fst (init lib ps) = Inr w0 \<and> scaler w0 = StandardScaler lib \<and>
                  model w0 = m0 \<and> sw (scaler w0) = None \<and> mw (model w0) = None)) \<and>
         (has_columns d X \<and> fit_transform lib (scaler w) X = (Inr Xs, sc1) \<and>
            model_fit lib (model w) Xs y = (Inr (), m2) \<and>
            score lib m2 Xs y = (Inr acc, m3) \<longrightarrow>
            result (fit lib w X y) = Inr () \<and>
            wrapper (fit lib w X y) = w\<lparr>scaler := sc1, model := m3\<rparr> \<and>
            sw sc1 = Some d \<and> mw m3 = Some d) \<and>
         (result (fit lib w X y) = Inr () \<longrightarrow>
            (\<exists>Xs sc1 m2 acc m3.
               fit_transform lib (scaler w) X = (Inr Xs, sc1) \<and>
               model_fit lib (model w) Xs y = (Inr (), m2) \<and>
               score lib m2 Xs y = (Inr acc, m3))) \<and>
         scaler (wrapper (predict lib w X')) = scaler w \<and>
         model (wrapper (predict lib w X')) = model w \<and>
         scaler (wrapper (predict_proba lib w X')) = scaler w \<and>
         model (wrapper (predict_proba lib w X')) = model w"
proof -
  have construct: "\<exists>w0. fst (init lib ps) = Inr w0 \<and> scaler w0 = StandardScaler lib \<and>
                    model w0 = m0 \<and> sw (scaler w0) = None \<and> mw (model w0) = None"
    if c: "RandomForestClassifier lib (dict_get ps ''n_estimators'' (PyInt 100))
            (dict_get ps ''max_depth'' PyNone) (dict_get ps ''min_samples_split'' (PyInt 2))
            (dict_get ps ''random_state'' (PyInt 42)) (- 1) = Inr m0"
  proof -
    from tracks_constructor [OF assms(1) c] have "mw m0 = None" .
    moreover from tracks_new_scaler [OF assms(1)] have "sw (StandardScaler lib) = None" .
    moreover from c have "fst (init lib ps) =
        Inr \<lparr>n_estimators = dict_get ps ''n_estimators'' (PyInt 100),
             max_depth = dict_get ps ''max_depth'' PyNone,
             min_samples_split = dict_get ps ''min_samples_split'' (PyInt 2),
             random_state = dict_get ps ''random_state'' (PyInt 42),
             scaler = StandardScaler lib, model = m0\<rparr>"
      by (simp add: init_def Let_def)
    ultimately show ?thesis by simp
  qed
  have refit: "result (fit lib w X y) = Inr () \<and>
            wrapper (fit lib w X y) = w\<lparr>scaler := sc1, model := m3\<rparr> \<and>
            sw sc1 = Some d \<and> mw m3 = Some d"
    if d: "has_columns d X" and f: "fit_transform lib (scaler w) X = (Inr Xs, sc1)"
      and m: "model_fit lib (model w) Xs y = (Inr (), m2)"
      and s: "score lib m2 Xs y = (Inr acc, m3)"
  proof -
    from d have ne: "X \<noteq> []" by (rule has_columns_nonempty)
    note fit_runs [OF assms(2) ne f m s]
    moreover from tracks_fit_transform [OF assms(1) f d]
    have sc: "sw sc1 = Some d" and Xs: "has_columns d Xs" by simp_all
    moreover from tracks_model_fit [OF assms(1) m Xs] tracks_score [OF assms(1) s]
    have "mw m3 = Some d" by simp
    ultimately show ?thesis by simp
  qed
  have only: "\<exists>Xs sc1 m2 acc m3.
               fit_transform lib (scaler w) X = (Inr Xs, sc1) \<and>
               model_fit lib (model w) Xs y = (Inr (), m2) \<and>
               score lib m2 Xs y = (Inr acc, m3)"
    if "result (fit lib w X y) = Inr ()"
    using fit_success [OF that] by blast
  have keep: "scaler (wrapper (predict lib w X')) = scaler w"
    "model (wrapper (predict lib w X')) = model w"
    "scaler (wrapper (predict_proba lib w X')) = scaler w"
    "model (wrapper (predict_proba lib w X')) = model w"
    using assms(3) by (simp_all add: predict_keeps_wrapper predict_proba_keeps_wrapper)
  show ?thesis
    apply (intro conjI impI)
          apply (erule construct)
         apply (elim conjE, drule (3) refit, simp)+
     apply (erule only)
    apply (rule keep)+
    done
qed

theorem fit_populates_on_every_call_witness:
  "tracks_columns nn_library nn_scaler_columns nn_model_columns \<and>
   sorts_indices nn_library \<and> read_only nn_library \<and>
   fst (init nn_library cfg) = Inr fresh \<and>
   nn_scaler_columns (scaler fresh) = None \<and> nn_model_columns (model fresh) = None \<and>
   nn_scaler_columns (scaler fitted) = Some 4 \<and> nn_model_columns (model fitted) = Some 4 \<and>
   has_columns 4 X_other \<and>
   result (fit nn_library fitted X_other y_other) = Inr () \<and>
   wrapper (fit nn_library fitted X_other y_other) =
     fitted\<lparr>scaler := Some [5, 5, 5, 5],
            model := (model fresh)\<lparr>trained :=
              Some [([- 5, - 5, - 5, - 5], 1), ([5, 5, 5, 5], 0)]\<rparr>\<rparr> \<and>
   nn_scaler_columns (scaler (wrapper (fit nn_library fitted X_other y_other))) = Some 4 \<and>
   nn_model_columns (model (wrapper (fit nn_library fitted X_other y_other))) = Some 4 \<and>
   scaler (wrapper (predict nn_library fitted X_test)) = scaler fitted \<and>
   model (wrapper (predict_proba nn_library fitted X_test)) = model fitted"
proof -
  let ?m = "(model fresh)\<lparr>trained := Some [([- 5, - 5, - 5, - 5], 1), ([5, 5, 5, 5], 0)]\<rparr>"
  have c: "RandomForestClassifier nn_library (dict_get cfg ''n_estimators'' (PyInt 100))
             (dict_get cfg ''max_depth'' PyNone) (dict_get cfg ''min_samples_split'' (PyInt 2))
             (dict_get cfg ''random_state'' (PyInt 42)) (- 1) = Inr (model fresh)"
    by (simp add: nn_library_def cfg_def dict_get_def fresh_def seed_entropy_def)
  have f: "fit_transform nn_library (scaler fitted) X_other =
             (Inr [[- 5, - 5, - 5, - 5], [5, 5, 5, 5]], Some [5, 5, 5, 5])"
    unfolding fitted_value by code_simp
  have m: "model_fit nn_library (model fitted) [[- 5, - 5, - 5, - 5], [5, 5, 5, 5]] y_other =
             (Inr (), ?m)"
    unfolding fitted_value fresh_def by code_simp
  have s: "score nn_library ?m [[- 5, - 5, - 5, - 5], [5, 5, 5, 5]] y_other = (Inr 1, ?m)"
    unfolding fresh_def by code_simp
  have before: "nn_scaler_columns (scaler fitted) = Some 4"
    "nn_model_columns (model fitted) = Some 4"
    "nn_scaler_columns (scaler fresh) = None" "nn_model_columns (model fresh) = None"
    by (simp_all add: fitted_value fresh_def nn_scaler_columns_def nn_model_columns_def)
  note fit_populates_on_every_call [OF nn_tracks_columns nn_sorts_indices nn_read_only,
      of cfg "model fresh" 4 X_other fitted "[[- 5, - 5, - 5, - 5], [5, 5, 5, 5]]"
        "Some [5, 5, 5, 5]" y_other ?m 1 ?m X_test]
  with c f m s has_columns_other
  have "result (fit nn_library fitted X_other y_other) = Inr () \<and>
        wrapper (fit nn_library fitted X_other y_other) =
          fitted\<lparr>scaler := Some [5, 5, 5, 5], model := ?m\<rparr> \<and>
        nn_scaler_columns (Some [5, 5, 5, 5]) = Some 4 \<and> nn_model_columns ?m = Some 4 \<and>
        scaler (wrapper (predict nn_library fitted X_test)) = scaler fitted \<and>
        model (wrapper (predict_proba nn_library fitted X_test)) = model fitted"
    by blast
  with nn_tracks_columns nn_sorts_indices nn_read_only init_cfg before has_columns_other
  show ?thesis by simp
qed

text \<open>
  C9, as the claim states it, fails: the slice \<open>[-5:]\<close> takes what there is. On the
  four-column data of the scenario the training succeeds and Fit reports four features,
  not five.
\<close>

theorem fit_reports_four_of_four:
  "result (fit nn_library fresh X_train y_train) = Inr () \<and>
   np_shape X_train = [4, 4] \<and>
   length (reported_features (printed (fit nn_library fresh X_train y_train))) = 4 \<and>
   length (reported_features (printed (fit nn_library fresh X_train y_train))) \<noteq> 5"
proof -
  have "np_shape X_train = [4, 4]"
    by (simp add: np_shape_def X_train_def)
  then show ?thesis
    by (simp add: fit_fresh)
qed

text \<open>
  C9, amended. After a successful training, Fit reports the five most influential
  features, or all of them when there are fewer than five, each once with its
  importance, ranked by importance in descending order, with ties in the order the
  library's index sort gives them: the report is the tail of \<open>argsort\<close>, reversed.
\<close>

theorem fit_reports_top_features:
  assumes "sorts_indices lib"
    and "result (fit lib w X y) = Inr ()"
    and "feature_importances lib (model (wrapper (fit lib w X y))) = Some imp"
    and "best = rev (slice_last 5 (argsort lib imp))"
  shows "reported_features (printed (fit lib w X y)) = map (\<lambda>i. (i, imp ! i)) best \<and>
         length best = min 5 (length imp) \<and>
         (5 \<le> length imp \<longrightarrow> length best = 5) \<and>
         (length imp < 5 \<longrightarrow> set best = {0..<length imp}) \<and>
         distinct best \<and> set best \<subseteq> {0..<length imp} \<and>
         sorted_wrt (\<lambda>i j. imp ! j \<le> imp ! i) best \<and>
         (\<forall>j<length imp. j \<notin> set best \<longrightarrow> (\<forall>i\<in>set best. imp ! j \<le> imp ! i))"
proof -
  from assms(1) have a: "distinct (argsort lib imp)"
    "set (argsort lib imp) = {0..<length imp}"
    "sorted (map (\<lambda>i. imp ! i) (argsort lib imp))"
    unfolding sorts_indices_def by blast+
  from fit_reported [OF assms(2,3)] assms(4)
  have r: "reported_features (printed (fit lib w X y)) = map (\<lambda>i. (i, imp ! i)) best"
    by simp
  note t = top_of_sorted_indices [OF a assms(4)]
  from a(1,2) have "length (argsort lib imp) = length imp"
    using distinct_card [of "argsort lib imp"] by simp
  with a(2) assms(4) have all: "length imp < 5 \<longrightarrow> set best = {0..<length imp}"
    by (simp add: slice_last_def)
  from t(1) have five: "5 \<le> length imp \<longrightarrow> length best = 5"
    by simp
  from r t all five show ?thesis
    by blast
qed

theorem fit_reports_top_features_witness:
  "sorts_indices nn_library \<and>
   result (fit nn_library fresh X_wide y_wide) = Inr () \<and>
   feature_importances nn_library (model (wrapper (fit nn_library fresh X_wide y_wide))) =
     Some [8, 10, 5, 0, 6, 2] \<and>
   rev (slice_last 5 (argsort nn_library [8, 10, 5, 0, 6, 2 :: rat])) = [1, 0, 4, 2, 5] \<and>
   reported_features (printed (fit nn_library fresh X_wide y_wide)) =
     [(1, 10), (0, 8), (4, 6), (2, 5), (5, 2)] \<and>
   length [1, 0, 4, 2, 5 :: nat] = min 5 (length [8, 10, 5, 0, 6, 2 :: rat])"
proof -
  have r: "result (fit nn_library fresh X_wide y_wide) = Inr ()"
    by (simp add: fit_fresh_wide)
  have f: "feature_importances nn_library
             (model (wrapper (fit nn_library fresh X_wide y_wide))) =
           Some [8, 10, 5, 0, 6, 2]"
    unfolding fit_fresh_wide fresh_def by code_simp
  have t: "rev (slice_last 5 (argsort nn_library [8, 10, 5, 0, 6, 2 :: rat])) = [1, 0, 4, 2, 5]"
    by code_simp
  from fit_reports_top_features [OF nn_sorts_indices r f t [symmetric]]
  have "reported_features (printed (fit nn_library fresh X_wide y_wide)) =
          map (\<lambda>i. (i, [8, 10, 5, 0, 6, 2 :: rat] ! i)) [1, 0, 4, 2, 5] \<and>
        length [1, 0, 4, 2, 5 :: nat] = min 5 (length [8, 10, 5, 0, 6, 2 :: rat])"
    by blast
  with nn_sorts_indices r f t show ?thesis by simp
qed

end
